theory Spec2Isabelle
  imports Main
begin

section \<open>Python string operations used by geocode\_google.py\<close>

text \<open>
  The input file is opened with the single-byte encoding cp1251, so one character of a
  decoded line is one \<^typ>\<open>char\<close>.  \<open>isspace\<close> lists the cp1251 characters that Python's
  \<^verbatim>\<open>str.isspace\<close> accepts and that \<^verbatim>\<open>str.strip()\<close> therefore removes: the ASCII
  controls 0x09 to 0x0D and 0x1C to 0x1F, the blank, and the no-break space 0xA0.
\<close>

definition isspace :: "char \<Rightarrow> bool" where
  "isspace c = (c \<in> set [CHR 0x09, CHR 0x0A, CHR 0x0B, CHR 0x0C, CHR 0x0D,
                          CHR 0x1C, CHR 0x1D, CHR 0x1E, CHR 0x1F, CHR '' '', CHR 0xA0])"

text \<open>The double quote character, \<^verbatim>\<open>'"'\<close> in the source.\<close>

definition dquote :: char where
  "dquote = CHR 0x22"

text \<open>\<^verbatim>\<open>s.strip()\<close> with \<open>p = isspace\<close>, \<^verbatim>\<open>s.strip(chars)\<close> with \<open>p\<close> membership in
  \<open>chars\<close>: every leading and every trailing character satisfying \<open>p\<close> is removed.\<close>

definition strip_by :: "(char \<Rightarrow> bool) \<Rightarrow> string \<Rightarrow> string" where
  "strip_by p s = rev (dropWhile p (rev (dropWhile p s)))"

definition strip :: "string \<Rightarrow> string" where
  "strip s = strip_by isspace s"

definition strip_chars :: "string \<Rightarrow> string \<Rightarrow> string" where
  "strip_chars chars s = strip_by (\<lambda>c. c \<in> set chars) s"

text \<open>\<^verbatim>\<open>s.split(sep)\<close> for a one-character separator: every occurrence splits, empty
  pieces are kept, and the empty string gives one empty piece.\<close>

fun split_sep :: "char \<Rightarrow> string \<Rightarrow> string list" where
  "split_sep sep [] = [[]]"
| "split_sep sep (c # cs) =
     (if c = sep then [] # split_sep sep cs
      else (case split_sep sep cs of
              [] \<Rightarrow> [[c]]
            | p # ps \<Rightarrow> (c # p) # ps))"

text \<open>\<^verbatim>\<open>s.split(sep, 1)\<close>: at most one split, at the first occurrence of \<open>sep\<close>.\<close>

definition split_first :: "char \<Rightarrow> string \<Rightarrow> string list" where
  "split_first sep s =
     (case dropWhile (\<lambda>c. c \<noteq> sep) s of
        [] \<Rightarrow> [s]
      | _ # rest \<Rightarrow> [takeWhile (\<lambda>c. c \<noteq> sep) s, rest])"

text \<open>\<^verbatim>\<open>sep.join(parts)\<close>.\<close>

fun join :: "string \<Rightarrow> string list \<Rightarrow> string" where
  "join sep [] = []"
| "join sep [p] = p"
| "join sep (p # q # ps) = p @ sep @ join sep (q # ps)"

definition startswith :: "string \<Rightarrow> string \<Rightarrow> bool" where
  "startswith s pre = (take (length pre) s = pre)"

definition endswith :: "string \<Rightarrow> string \<Rightarrow> bool" where
  "endswith s suf = (drop (length s - length suf) s = suf \<and> length suf \<le> length s)"

text \<open>\<^verbatim>\<open>s.lower()\<close> on the ASCII letters.  The other cp1251 letters lower to characters
  outside ASCII, so they cannot change a comparison with the ASCII text \<^verbatim>\<open>"id,"\<close>,
  the only use the source makes of \<^verbatim>\<open>lower\<close>; they are left as they are.\<close>

definition lower_char :: "char \<Rightarrow> char" where
  "lower_char c =
     (let n = (of_char c :: nat) in
      if 65 \<le> n \<and> n \<le> 90 then char_of (n + 32) else c)"

definition lower :: "string \<Rightarrow> string" where
  "lower s = map lower_char s"

text \<open>\<^verbatim>\<open>s.replace(old, new)\<close>: occurrences of \<open>old\<close> are replaced from the left, without
  overlap.  For the empty \<open>old\<close> Python puts \<open>new\<close> before every character and at the end.\<close>

function replace_ne :: "string \<Rightarrow> string \<Rightarrow> string \<Rightarrow> string" where
  "replace_ne old new [] = []"
| "replace_ne old new (c # cs) =
     (if old \<noteq> [] \<and> startswith (c # cs) old
      then new @ replace_ne old new (drop (length old) (c # cs))
      else c # replace_ne old new cs)"
  by pat_completeness auto
termination
  by (relation "measure (\<lambda>(old, new, s). length s)") auto

definition replace :: "string \<Rightarrow> string \<Rightarrow> string \<Rightarrow> string" where
  "replace old new s =
     (if old = [] then new @ concat (map (\<lambda>c. c # new) s) else replace_ne old new s)"

section \<open>The record parser\<close>

text \<open>
  \<^verbatim>\<open>parse_line\<close> returns \<^verbatim>\<open>(None, None)\<close> for a line to skip and a pair of strings
  otherwise; the model returns \<open>None\<close> and \<open>Some (row_id, addr)\<close>.
\<close>

definition parse_line :: "string \<Rightarrow> (string \<times> string) option" where
  "parse_line line0 =
     (let line = strip line0 in
      if line = [] then None
      else if startswith (lower line) ''id,'' then None
      else
        (case split_first CHR '','' line of
           [row, rest] \<Rightarrow>
             (let row_id = strip row;
                  addr = strip rest;
                  addr = (if startswith addr [dquote] \<and> endswith addr [dquote]
                          then butlast (tl addr) else addr);
                  addr = replace [dquote, dquote] [dquote] addr
              in Some (row_id, addr))
         | _ \<Rightarrow> Some (strip line, [])))"

text \<open>
  What \<^verbatim>\<open>parse_line\<close> does to the text after the first comma (\<^verbatim>\<open>parts[1]\<close>), as a
  function of that text: trimming, removal of one pair of outer quotes, collapse of
  doubled quotes.
\<close>

definition clean_address :: "string \<Rightarrow> string" where
  "clean_address rest =
     (let addr = strip rest;
          addr = (if startswith addr [dquote] \<and> endswith addr [dquote]
                  then butlast (tl addr) else addr)
      in replace [dquote, dquote] [dquote] addr)"

section \<open>The geocoding service\<close>

text \<open>
  One request to the service either raises (the HTTP call fails, the HTTP status is not a
  success, the body is not JSON) or yields the decoded JSON object, of which the source
  reads the keys \<^verbatim>\<open>status\<close> and \<^verbatim>\<open>results\<close>.  A result is \<open>Location lat lng\<close>
  when \<^verbatim>\<open>float(result["geometry"]["location"]["lat"])\<close> and the same for \<^verbatim>\<open>lng\<close>
  succeed, and \<open>Malformed\<close> when one of these lookups or conversions raises.  The type
  \<open>'f\<close> stands for Python's floats.
\<close>

datatype error = Transport_fault | Http_status | Bad_json | Bad_result

datatype 'f result = Location 'f 'f | Malformed

datatype 'f payload = Payload (get_status: "string option") (get_results: "'f result list")

text \<open>
  The service is outside the program: it answers a request (credential and address) in
  a state \<open>'w\<close> of the outside world and moves that state on, so that two requests for one
  address need not get one answer.  The credential \<^verbatim>\<open>GOOGLE_API_KEY\<close> is read by
  \<^verbatim>\<open>geocode_once\<close> but assigned nowhere in the source file; it is a parameter here.
\<close>

type_synonym ('w, 'f) service = "'w \<Rightarrow> string \<Rightarrow> string \<Rightarrow> (error + 'f payload) \<times> 'w"

type_synonym 'f outcome = "error + ('f option \<times> 'f option \<times> string)"

definition geocode_once ::
  "('w, 'f) service \<Rightarrow> string \<Rightarrow> string \<Rightarrow> 'w \<Rightarrow> 'f outcome \<times> 'w" where
  "geocode_once svc key addr w =
     (case svc w key addr of
        (Inl e, w') \<Rightarrow> (Inl e, w')
      | (Inr data, w') \<Rightarrow>
          (let status = (case get_status data of None \<Rightarrow> ''UNKNOWN'' | Some s \<Rightarrow> s) in
           if status \<noteq> ''OK'' then (Inr (None, None, status), w')
           else
             (case get_results data of
                [] \<Rightarrow> (Inr (None, None, status), w')
              | Malformed # _ \<Rightarrow> (Inl Bad_result, w')
              | Location lat lng # _ \<Rightarrow> (Inr (Some lat, Some lng, status), w'))))"

section \<open>Observable effects\<close>

text \<open>
  What the program does besides returning is recorded as a list of events, in the order
  of execution: \<open>Query c r\<close> is one call \<^verbatim>\<open>geocode_once(c)\<close> with its outcome \<open>r\<close>,
  \<open>Print\<close> a console message (its parts, not its wording), \<open>Write\<close> a
  \<^verbatim>\<open>f_out.write\<close> with the text written, \<open>Flush\<close> a \<^verbatim>\<open>f_out.flush()\<close> and \<open>Sleep\<close>
  a \<^verbatim>\<open>time.sleep(DELAY_SEC)\<close>.  A \<open>Write\<close> is recorded when the text was accepted by
  the output file (see \<open>cp1251_encodable\<close> below); the console accepts every message.
\<close>

datatype 'f message =
    Msg_fallback string
  | Msg_try string string
  | Msg_not_found string
  | Msg_empty_address string
  | Msg_resolved string string "'f option" "'f option"
  | Msg_error string string error
  | Msg_no_input

datatype 'f event =
    Query string "'f outcome"
  | Print "'f message"
  | Write string
  | Flush
  | Sleep

section \<open>The address resolver\<close>

text \<open>The value of the variable \<^verbatim>\<open>original\<close>: \<^verbatim>\<open>addr.strip().strip('"')\<close>.\<close>

definition original_of :: "string \<Rightarrow> string" where
  "original_of addr = strip_chars [dquote] (strip addr)"

text \<open>The list \<^verbatim>\<open>parts\<close>: the trimmed, non-empty comma segments of \<^verbatim>\<open>original\<close>.\<close>

definition parts_of :: "string \<Rightarrow> string list" where
  "parts_of original = [strip p. p \<leftarrow> split_sep CHR '','' original, strip p \<noteq> []]"

text \<open>
  The loop \<^verbatim>\<open>for n in range(len(parts), 0, -1)\<close>, by recursion on \<open>n\<close>; at \<open>0\<close> the
  loop is exhausted and control falls to the lines after it.
\<close>

fun trim_loop ::
  "('w, 'f) service \<Rightarrow> string \<Rightarrow> string \<Rightarrow> string list \<Rightarrow> nat \<Rightarrow> 'w
     \<Rightarrow> (error + 'f option \<times> 'f option) \<times> 'f event list \<times> 'w" where
  "trim_loop svc key original parts 0 w =
     (Inr (None, None), [Print (Msg_not_found original)], w)"
| "trim_loop svc key original parts (Suc m) w =
     (let candidate = join '', '' (take (Suc m) parts) in
      case geocode_once svc key candidate w of
        (Inl e, w') \<Rightarrow> (Inl e, [Query candidate (Inl e)], w')
      | (Inr (lat, lng, status), w') \<Rightarrow>
          if status = ''OK'' then
            (Inr (lat, lng),
             Query candidate (Inr (lat, lng, status))
               # (if candidate \<noteq> original then [Print (Msg_fallback candidate)] else []),
             w')
          else if status \<noteq> ''ZERO_RESULTS'' \<and> status \<noteq> ''OK'' then
            (Inr (None, None),
             [Query candidate (Inr (lat, lng, status)), Print (Msg_try candidate status),
              Print (Msg_not_found original)],
             w')
          else
            (case trim_loop svc key original parts m w' of
               (r, evs, w'') \<Rightarrow>
                 (r,
                  Query candidate (Inr (lat, lng, status)) # Print (Msg_try candidate status)
                    # evs,
                  w'')))"

definition geocode_with_trimming ::
  "('w, 'f) service \<Rightarrow> string \<Rightarrow> string \<Rightarrow> 'w
     \<Rightarrow> (error + 'f option \<times> 'f option) \<times> 'f event list \<times> 'w" where
  "geocode_with_trimming svc key addr w =
     (let original = original_of addr in
      if original = [] then (Inr (None, None), [], w)
      else
        (let parts = parts_of original in
         if parts = [] then (Inr (None, None), [], w)
         else trim_loop svc key original parts (length parts) w))"

section \<open>The batch driver\<close>

text \<open>The row written for a record that went through the resolver; \<open>str\<close> is Python's
  \<^verbatim>\<open>str\<close> on floats.\<close>

definition format_row ::
  "('f \<Rightarrow> string) \<Rightarrow> string \<Rightarrow> string \<Rightarrow> 'f option \<Rightarrow> 'f option \<Rightarrow> string" where
  "format_row str row_id addr lat lng =
     (let safe_addr = replace [dquote] [dquote, dquote] addr;
          lat_str = (case lat of None \<Rightarrow> [] | Some x \<Rightarrow> str x);
          lng_str = (case lng of None \<Rightarrow> [] | Some x \<Rightarrow> str x)
      in row_id @ '','' @ [dquote] @ safe_addr @ [dquote] @ '','' @ lat_str @ '',''
           @ lng_str @ [CHR 0x0A])"

text \<open>
  The output file is opened with the strict encoding cp1251, while the input is read with
  \<^verbatim>\<open>errors="replace"\<close>.  The byte 0x98 is the one byte that cp1251 does not define: read,
  it becomes the replacement character U+FFFD, which cp1251 cannot encode.  \<open>CHR 0x98\<close>
  stands for that character; every other character of a decoded line is written back as
  the byte it came from.  \<^verbatim>\<open>f_out.write(text)\<close> encodes the whole text before anything
  reaches the file, and raises \<^verbatim>\<open>UnicodeEncodeError\<close> when it cannot.
\<close>

definition cp1251_encodable :: "string \<Rightarrow> bool" where
  "cp1251_encodable text = (CHR 0x98 \<notin> set text)"

text \<open>The exception that leaves \<^verbatim>\<open>main\<close>: both calls of \<^verbatim>\<open>f_out.write\<close> in the loop stand
  outside the \<^verbatim>\<open>try\<close>.\<close>

datatype fatal = Unicode_encode_error

text \<open>
  The body of the loop \<^verbatim>\<open>for line in f_in\<close>.  The first component of the result is
  \<open>None\<close> when the body ran to its end (or to a \<^verbatim>\<open>continue\<close>), and the exception when
  a write raised.
\<close>

definition process_line ::
  "('w, 'f) service \<Rightarrow> string \<Rightarrow> ('f \<Rightarrow> string) \<Rightarrow> string \<Rightarrow> 'w
     \<Rightarrow> fatal option \<times> 'f event list \<times> 'w" where
  "process_line svc key str line w =
     (case parse_line line of
        None \<Rightarrow> (None, [], w)
      | Some (row_id, addr) \<Rightarrow>
          if addr = [] then
            (let text = row_id @ '','' @ [dquote, dquote] @ '',,'' @ [CHR 0x0A] in
             if cp1251_encodable text
             then (None, [Print (Msg_empty_address row_id), Write text, Flush], w)
             else (Some Unicode_encode_error, [Print (Msg_empty_address row_id)], w))
          else
            (case geocode_with_trimming svc key addr w of
               (Inr (lat, lng), evs, w') \<Rightarrow>
                 (let text = format_row str row_id addr lat lng in
                  if cp1251_encodable text
                  then (None,
                        evs @ [Print (Msg_resolved row_id addr lat lng), Write text, Flush,
                               Sleep], w')
                  else (Some Unicode_encode_error,
                        evs @ [Print (Msg_resolved row_id addr lat lng)], w'))
             | (Inl e, evs, w') \<Rightarrow>
                 (let text = format_row str row_id addr None None in
                  if cp1251_encodable text
                  then (None,
                        evs @ [Print (Msg_error row_id addr e), Write text, Flush, Sleep], w')
                  else (Some Unicode_encode_error,
                        evs @ [Print (Msg_error row_id addr e)], w'))))"

text \<open>The loop: an exception of the body ends it, and the remaining lines are not read.\<close>

fun main_loop ::
  "('w, 'f) service \<Rightarrow> string \<Rightarrow> ('f \<Rightarrow> string) \<Rightarrow> string list \<Rightarrow> 'w
     \<Rightarrow> fatal option \<times> 'f event list \<times> 'w" where
  "main_loop svc key str [] w = (None, [], w)"
| "main_loop svc key str (line # rest) w =
     (case process_line svc key str line w of
        (Some x, evs, w') \<Rightarrow> (Some x, evs, w')
      | (None, evs, w') \<Rightarrow>
          (case main_loop svc key str rest w' of
             (r, evs', w'') \<Rightarrow> (r, evs @ evs', w'')))"

text \<open>
  \<^verbatim>\<open>main\<close>: \<open>None\<close> is a missing input file, \<open>Some lines\<close> the lines of the file.  The
  header line is ASCII, so writing it succeeds.  The first component of the result is the
  exception with which \<^verbatim>\<open>main\<close> ends, if any.
\<close>

definition main ::
  "('w, 'f) service \<Rightarrow> string \<Rightarrow> ('f \<Rightarrow> string) \<Rightarrow> string list option \<Rightarrow> 'w
     \<Rightarrow> fatal option \<times> 'f event list \<times> 'w" where
  "main svc key str input w =
     (case input of
        None \<Rightarrow> (None, [Print Msg_no_input], w)
      | Some lines \<Rightarrow>
          (case main_loop svc key str lines w of
             (r, evs, w') \<Rightarrow> (r, Write (''id,address,lat,lng'' @ [CHR 0x0A]) # evs, w')))"

section \<open>Projections of the event list and services for concrete runs\<close>

text \<open>The texts written to the output file, in order.\<close>

definition written :: "'f event list \<Rightarrow> string list" where
  "written evs = concat (map (\<lambda>e. case e of Write s \<Rightarrow> [s] | _ \<Rightarrow> []) evs)"

text \<open>
  A service that follows a script: the state of the world is the number of requests made
  so far, the \<open>k\<close>-th request gets the \<open>k\<close>-th reply of the script, and the connection
  fails once the script is used up.
\<close>

definition scripted :: "(error + int payload) list \<Rightarrow> (nat, int) service" where
  "scripted replies w key addr =
     (if w < length replies then replies ! w else Inl Transport_fault, Suc w)"

definition zero_results :: "error + int payload" where
  "zero_results = Inr (Payload (Some ''ZERO_RESULTS'') [])"

definition denied :: "error + int payload" where
  "denied = Inr (Payload (Some ''REQUEST_DENIED'') [])"

definition ok_empty :: "error + int payload" where
  "ok_empty = Inr (Payload (Some ''OK'') [])"

definition ok_at :: "int \<Rightarrow> int \<Rightarrow> error + int payload" where
  "ok_at lat lng = Inr (Payload (Some ''OK'') [Location lat lng])"

text \<open>A stand-in for \<^verbatim>\<open>str\<close> on the integer coordinates of the scripted services.\<close>

fun show_coord :: "int \<Rightarrow> string" where
  "show_coord x = (if x = 55 then ''55.0'' else if x = 37 then ''37.0'' else ''0.0'')"

section \<open>The wording of two claims, for comparison with the code\<close>

text \<open>
  Normalisation as claim C5 words it: surrounding whitespace is removed, then one
  leading quote together with one trailing quote, when both are there.
\<close>

definition normalize_single_pair :: "string \<Rightarrow> string" where
  "normalize_single_pair addr =
     (let s = strip addr in
      if 2 \<le> length s \<and> startswith s [dquote] \<and> endswith s [dquote]
      then butlast (tl s) else s)"

text \<open>
  The split as claim C7 words it: everything before the first comma, and everything
  after it (nothing, when there is no comma).
\<close>

definition first_comma_split :: "string \<Rightarrow> string \<times> string" where
  "first_comma_split line =
     (takeWhile (\<lambda>c. c \<noteq> CHR '','') line, drop 1 (dropWhile (\<lambda>c. c \<noteq> CHR '','') line))"

section \<open>Stripping\<close>

lemma strip_by_decomp:
  "\<exists>pre suf. s = pre @ strip_by p s @ suf \<and> list_all p pre \<and> list_all p suf"
proof -
  let ?t = "dropWhile p s"
  have "?t = rev (takeWhile p (rev ?t) @ dropWhile p (rev ?t))"
    by (simp only: takeWhile_dropWhile_id rev_rev_ident)
  also have "\<dots> = rev (dropWhile p (rev ?t)) @ rev (takeWhile p (rev ?t))"
    by (simp only: rev_append)
  finally have t: "?t = strip_by p s @ rev (takeWhile p (rev ?t))"
    by (simp only: strip_by_def)
  have "s = takeWhile p s @ ?t" by simp
  with t have "s = takeWhile p s @ strip_by p s @ rev (takeWhile p (rev ?t))" by simp
  moreover have "list_all p (takeWhile p s)"
    by (simp add: list_all_iff) (meson set_takeWhileD)
  moreover have "list_all p (rev (takeWhile p (rev ?t)))"
    by (simp add: list_all_iff) (meson set_takeWhileD)
  ultimately show ?thesis by blast
qed

lemma strip_by_ends:
  assumes "strip_by p s \<noteq> []"
  shows "\<not> p (hd (strip_by p s)) \<and> \<not> p (last (strip_by p s))"
proof -
  let ?t = "dropWhile p s"
  let ?u = "dropWhile p (rev ?t)"
  from assms have u: "?u \<noteq> []" by (simp add: strip_by_def)
  have t: "?t \<noteq> []"
  proof
    assume "?t = []"
    then have "?u = []" by (simp only: rev.simps dropWhile.simps)
    with u show False by contradiction
  qed
  from u have nu: "\<not> p (hd ?u)" by (rule hd_dropWhile)
  from u have "hd ?u \<in> set ?u" by simp
  then have "hd ?u \<in> set (rev ?t)" by (rule set_dropWhileD)
  with nu have "last ?u = last (rev ?t)" by (rule dropWhile_last [rotated])
  also from t have "\<dots> = hd ?t" by (simp add: last_rev)
  finally have "hd (strip_by p s) = hd ?t"
    using u by (simp add: strip_by_def hd_rev)
  moreover from t have "\<not> p (hd ?t)" by (rule hd_dropWhile)
  moreover have "last (strip_by p s) = hd ?u"
    using u by (simp add: strip_by_def last_rev)
  ultimately show ?thesis using nu by simp
qed

text \<open>
  Claim C5, as amended.  The address is the normalised address \<open>original_of addr\<close>
  with quote characters before and after it (any number on either side, matched or not)
  and whitespace around those; what the whitespace surrounds neither starts nor ends with
  a whitespace character, and the normalised address neither starts nor ends with a
  quote.  So all surrounding whitespace goes first, then every leading and every trailing
  quote; the segments are taken from the result (\<open>geocode_with_trimming\<close> applies
  \<open>parts_of\<close> to it).
\<close>

theorem original_of_strips_all_outer_quotes:
  "\<exists>ws1 q1 q2 ws2.
     addr = ws1 @ q1 @ original_of addr @ q2 @ ws2
     \<and> list_all isspace (ws1 @ ws2)
     \<and> list_all (\<lambda>c. c = dquote) (q1 @ q2)
     \<and> (q1 @ original_of addr @ q2 = []
          \<or> \<not> isspace (hd (q1 @ original_of addr @ q2))
              \<and> \<not> isspace (last (q1 @ original_of addr @ q2)))
     \<and> (original_of addr = []
          \<or> hd (original_of addr) \<noteq> dquote \<and> last (original_of addr) \<noteq> dquote)"
proof -
  from strip_by_decomp [of addr isspace] obtain ws1 ws2 where
    a: "addr = ws1 @ strip addr @ ws2" and w: "list_all isspace ws1" "list_all isspace ws2"
    by (auto simp: strip_def)
  from strip_by_decomp [of "strip addr" "\<lambda>c. c \<in> set [dquote]"] obtain q1 q2 where
    s: "strip addr = q1 @ original_of addr @ q2" and
    q: "list_all (\<lambda>c. c = dquote) q1" "list_all (\<lambda>c. c = dquote) q2"
    by (auto simp: original_of_def strip_chars_def)
  from a s have "addr = ws1 @ q1 @ original_of addr @ q2 @ ws2" by simp
  moreover from w have "list_all isspace (ws1 @ ws2)" by simp
  moreover from q have "list_all (\<lambda>c. c = dquote) (q1 @ q2)" by simp
  moreover have "q1 @ original_of addr @ q2 = []
          \<or> \<not> isspace (hd (q1 @ original_of addr @ q2))
              \<and> \<not> isspace (last (q1 @ original_of addr @ q2))"
    using strip_by_ends [of isspace addr] unfolding s [symmetric]
    by (auto simp: strip_def)
  moreover have "original_of addr = []
          \<or> hd (original_of addr) \<noteq> dquote \<and> last (original_of addr) \<noteq> dquote"
    using strip_by_ends [of "\<lambda>c. c \<in> set [dquote]" "strip addr"]
    by (auto simp: original_of_def strip_chars_def)
  ultimately show ?thesis by blast
qed

text \<open>
  Claim C5 as stated fails: of the address \<^verbatim>\<open> ""a"" \<close> the code keeps \<^verbatim>\<open>a\<close>, having
  removed two pairs of quotes, where one pair would leave \<^verbatim>\<open>"a"\<close>; and of \<^verbatim>\<open>"a\<close> it
  removes the leading quote, which no trailing quote matches.
\<close>

theorem original_of_strips_two_pairs:
  "strip '' \"\"a\"\" '' = ''\"\"a\"\"''
   \<and> original_of '' \"\"a\"\" '' = ''a''
   \<and> normalize_single_pair '' \"\"a\"\" '' = ''\"a\"''
   \<and> original_of ''\"a'' = ''a''
   \<and> normalize_single_pair ''\"a'' = ''\"a''"
  by code_simp


section \<open>The record parser: the split at the first comma\<close>

lemma strip_by_id:
  assumes "s = [] \<or> \<not> p (hd s) \<and> \<not> p (last s)"
  shows "strip_by p s = s"
proof (cases s)
  case Nil
  then show ?thesis by (simp add: strip_by_def)
next
  case (Cons c cs)
  with assms have h: "\<not> p (hd s)" and l: "\<not> p (last s)" by auto
  from Cons h have d: "dropWhile p s = s" by simp
  from Cons have "rev s \<noteq> []" by simp
  moreover from Cons l have "\<not> p (hd (rev s))" by (metis hd_rev)
  ultimately have "dropWhile p (rev s) = rev s" by (cases "rev s") auto
  with d show ?thesis by (simp add: strip_by_def)
qed

lemma strip_by_idem: "strip_by p (strip_by p s) = strip_by p s"
  using strip_by_ends [of p s] by (intro strip_by_id) blast

lemma split_first_no_sep:
  assumes "sep \<notin> set s"
  shows "split_first sep s = [s]"
proof -
  from assms have "dropWhile (\<lambda>c. c \<noteq> sep) s = []"
    by (auto simp: dropWhile_eq_Nil_conv)
  then show ?thesis by (simp only: split_first_def list.case)
qed

lemma split_first_at_sep:
  assumes "sep \<notin> set before"
  shows "split_first sep (before @ sep # rest) = [before, rest]"
proof -
  from assms have all: "\<forall>x\<in>set before. x \<noteq> sep" by auto
  then have "takeWhile (\<lambda>c. c \<noteq> sep) (before @ sep # rest) = before"
    by (simp add: takeWhile_tail)
  moreover from all have "dropWhile (\<lambda>c. c \<noteq> sep) (before @ sep # rest) = sep # rest"
    by (simp add: dropWhile_append3)
  ultimately show ?thesis by (simp add: split_first_def)
qed

text \<open>
  Claim C7, as amended.  Let the line, with its surrounding whitespace removed, be
  neither empty nor a header.  If it has no comma, it is the row identifier and the
  address is empty.  If it is \<open>before\<close>, a comma, \<open>rest\<close> with no comma in \<open>before\<close>,
  the row identifier is \<open>before\<close> with its surrounding whitespace removed, and the
  address is made from \<open>rest\<close> alone, commas included.
\<close>

theorem parse_line_splits_on_first_comma:
  assumes "strip line \<noteq> []" and "\<not> startswith (lower (strip line)) ''id,''"
  shows "(CHR '','' \<notin> set (strip line) \<longrightarrow> parse_line line = Some (strip line, []))
       \<and> (\<forall>before rest.
            strip line = before @ CHR '','' # rest \<and> CHR '','' \<notin> set before
            \<longrightarrow> parse_line line = Some (strip before, clean_address rest))"
proof (intro conjI allI impI)
  assume "CHR '','' \<notin> set (strip line)"
  from split_first_no_sep [OF this] assms show "parse_line line = Some (strip line, [])"
    by (simp add: parse_line_def Let_def) (simp add: strip_def strip_by_idem)
next
  fix before rest
  assume "strip line = before @ CHR '','' # rest \<and> CHR '','' \<notin> set before"
  then have l: "strip line = before @ CHR '','' # rest" and "CHR '','' \<notin> set before"
    by simp_all
  from split_first_at_sep [OF this(2), of rest] assms l
  show "parse_line line = Some (strip before, clean_address rest)"
    by (simp add: parse_line_def clean_address_def Let_def)
qed

text \<open>A line with two commas and a blank before the first, and a line with none.\<close>

theorem parse_line_splits_on_first_comma_witness:
  "strip ''7 ,\"A, B\"\<newline>'' \<noteq> []
   \<and> \<not> startswith (lower (strip ''7 ,\"A, B\"\<newline>'')) ''id,''
   \<and> strip ''7 ,\"A, B\"\<newline>'' = ''7 '' @ CHR '','' # ''\"A, B\"''
   \<and> CHR '','' \<notin> set ''7 ''
   \<and> parse_line ''7 ,\"A, B\"\<newline>'' = Some (''7'', ''A, B'')
   \<and> strip ''  abc\<newline>'' \<noteq> []
   \<and> \<not> startswith (lower (strip ''  abc\<newline>'')) ''id,''
   \<and> CHR '','' \<notin> set (strip ''  abc\<newline>'')
   \<and> parse_line ''  abc\<newline>'' = Some (''abc'', [])"
proof -
  have a1: "strip ''7 ,\"A, B\"\<newline>'' \<noteq> []"
    and a2: "\<not> startswith (lower (strip ''7 ,\"A, B\"\<newline>'')) ''id,''"
    and a3: "strip ''7 ,\"A, B\"\<newline>'' = ''7 '' @ CHR '','' # ''\"A, B\"''"
    and a4: "CHR '','' \<notin> set ''7 ''"
    by code_simp+
  have b1: "strip ''  abc\<newline>'' \<noteq> []"
    and b2: "\<not> startswith (lower (strip ''  abc\<newline>'')) ''id,''"
    and b3: "CHR '','' \<notin> set (strip ''  abc\<newline>'')"
    by code_simp+
  have c1: "strip ''7 '' = ''7''" and c2: "clean_address ''\"A, B\"'' = ''A, B''"
    and c3: "strip ''  abc\<newline>'' = ''abc''"
    by code_simp+
  from parse_line_splits_on_first_comma [OF a1 a2] a3 a4
  have "parse_line ''7 ,\"A, B\"\<newline>'' = Some (strip ''7 '', clean_address ''\"A, B\"'')"
    by blast
  moreover from parse_line_splits_on_first_comma [OF b1 b2] b3
  have "parse_line ''  abc\<newline>'' = Some (strip ''  abc\<newline>'', [])"
    by blast
  ultimately show ?thesis using a1 a2 a3 a4 b1 b2 b3 by (simp only: c1 c2 c3 simp_thms)
qed

text \<open>
  Claim C7 as stated fails: in \<^verbatim>\<open>7 ,x\<close> everything before the comma is \<^verbatim>\<open>7\<close> and a
  blank, and the row identifier is \<^verbatim>\<open>7\<close>.
\<close>

theorem row_id_is_trimmed:
  "parse_line ''7 ,x'' = Some (''7'', ''x'') \<and> first_comma_split ''7 ,x'' = (''7 '', ''x'')"
  by code_simp

section \<open>The truncation loop\<close>

lemma parts_of_Nil: "parts_of [] = []"
  by (simp add: parts_of_def strip_def strip_by_def)

lemma geocode_once_ok_no_results:
  "geocode_once svc key addr w = (Inr (None, None, ''OK''), w') \<longleftrightarrow>
   (\<exists>d. svc w key addr = (Inr d, w') \<and> get_status d = Some ''OK'' \<and> get_results d = [])"
  by (auto simp: geocode_once_def Let_def
           split: prod.splits sum.splits option.splits list.splits result.splits if_splits)

lemma trim_loop_terminal_query:
  "trim_loop svc key original parts n w = (r, evs, w') \<Longrightarrow>
   evs = pre @ Query c (Inr (la, ln, st)) # post \<Longrightarrow>
   st \<noteq> ''OK'' \<Longrightarrow> st \<noteq> ''ZERO_RESULTS'' \<Longrightarrow>
   r = Inr (None, None) \<and> post = [Print (Msg_try c st), Print (Msg_not_found original)]"
proof (induction n arbitrary: w r evs w' pre)
  case 0
  then show ?case by (auto simp: Cons_eq_append_conv)
next
  case (Suc m)
  then show ?case
    by (auto simp: Let_def Cons_eq_append_conv split: prod.splits sum.splits if_splits)
qed

lemma trim_loop_ok_query:
  "trim_loop svc key original parts n w = (r, evs, w') \<Longrightarrow>
   evs = pre @ Query c (Inr (la, ln, ''OK'')) # post \<Longrightarrow>
   r = Inr (la, ln) \<and> post = (if c \<noteq> original then [Print (Msg_fallback c)] else [])"
proof (induction n arbitrary: w r evs w' pre)
  case 0
  then show ?case by (auto simp: Cons_eq_append_conv)
next
  case (Suc m)
  then show ?case
    by (auto simp: Let_def Cons_eq_append_conv split: prod.splits sum.splits if_splits)
qed

lemma geocode_with_trimming_loop:
  assumes "geocode_with_trimming svc key addr w = (r, evs, w')" and "evs \<noteq> []"
  shows "trim_loop svc key (original_of addr) (parts_of (original_of addr))
           (length (parts_of (original_of addr))) w = (r, evs, w')"
  using assms by (auto simp: geocode_with_trimming_def Let_def split: if_splits)

text \<open>
  Claim C1.  Take any run of the resolver on an address and any query of that run,
  \<open>Query c (Inr (lat, lng, status))\<close>, whose status is neither \<open>OK\<close> nor
  \<open>ZERO_RESULTS\<close>.  Then the resolver returns absent coordinates, and after that query
  the run consists of the two console messages only: no shorter candidate is queried.
\<close>

theorem terminal_status_stops_truncation:
  assumes "geocode_with_trimming svc key addr w = (r, evs, w')"
    and "evs = pre @ Query c (Inr (lat, lng, status)) # post"
    and "status \<noteq> ''OK''" and "status \<noteq> ''ZERO_RESULTS''"
  shows "r = Inr (None, None) \<and>
         post = [Print (Msg_try c status), Print (Msg_not_found (original_of addr))]"
proof -
  from assms(2) have "evs \<noteq> []" by simp
  from trim_loop_terminal_query [OF geocode_with_trimming_loop [OF assms(1) this] assms(2,3,4)]
  show ?thesis .
qed

text \<open>
  The first candidate of \<open>A, B, C\<close> gets \<open>ZERO_RESULTS\<close>, the second \<open>REQUEST_DENIED\<close>:
  the candidate \<open>A\<close> is not queried.
\<close>

theorem terminal_status_stops_truncation_witness:
  "geocode_with_trimming (scripted [zero_results, denied]) ''k'' ''A, B, C'' 0
     = (Inr (None, None),
        [Query ''A, B, C'' (Inr (None, None, ''ZERO_RESULTS'')),
         Print (Msg_try ''A, B, C'' ''ZERO_RESULTS'')]
        @ Query ''A, B'' (Inr (None, None, ''REQUEST_DENIED''))
        # [Print (Msg_try ''A, B'' ''REQUEST_DENIED''), Print (Msg_not_found ''A, B, C'')],
        2)
   \<and> ''REQUEST_DENIED'' \<noteq> ''OK'' \<and> ''REQUEST_DENIED'' \<noteq> ''ZERO_RESULTS''
   \<and> [Print (Msg_try ''A, B'' ''REQUEST_DENIED''), Print (Msg_not_found ''A, B, C'') :: int event]
       = [Print (Msg_try ''A, B'' ''REQUEST_DENIED''),
          Print (Msg_not_found (original_of ''A, B, C''))]"
proof -
  have run: "geocode_with_trimming (scripted [zero_results, denied]) ''k'' ''A, B, C'' 0
     = (Inr (None, None),
        [Query ''A, B, C'' (Inr (None, None, ''ZERO_RESULTS'')),
         Print (Msg_try ''A, B, C'' ''ZERO_RESULTS'')]
        @ Query ''A, B'' (Inr (None, None, ''REQUEST_DENIED''))
        # [Print (Msg_try ''A, B'' ''REQUEST_DENIED''), Print (Msg_not_found ''A, B, C'')],
        2)"
    by code_simp
  have ne: "''REQUEST_DENIED'' \<noteq> ''OK''" "''REQUEST_DENIED'' \<noteq> ''ZERO_RESULTS''"
    by simp_all
  from terminal_status_stops_truncation [OF run refl ne] run ne show ?thesis
    by simp
qed

text \<open>
  Claim C10.  \<^verbatim>\<open>geocode_once\<close> returns \<open>(None, None, OK)\<close> exactly when the service
  answers with status \<open>OK\<close> and no result (\<open>geocode_once_ok_no_results\<close>).  Take any run
  of the resolver and any query of that run with this outcome.  Then the resolver returns
  absent coordinates, and after that query the run has no further query: only the
  fallback notice, when the candidate differs from the normalised address.
\<close>

theorem ok_without_results_stops_truncation:
  assumes "geocode_with_trimming svc key addr w = (r, evs, w')"
    and "evs = pre @ Query c (Inr (None, None, ''OK'')) # post"
  shows "r = Inr (None, None) \<and>
         post = (if c \<noteq> original_of addr then [Print (Msg_fallback c)] else [])"
proof -
  from assms(2) have "evs \<noteq> []" by simp
  from trim_loop_ok_query [OF geocode_with_trimming_loop [OF assms(1) this] assms(2)]
  show ?thesis .
qed

text \<open>
  The first candidate of \<open>A, B, C\<close> gets \<open>ZERO_RESULTS\<close>, the second \<open>OK\<close> with no
  result: the candidate \<open>A\<close> is not queried, although the script would go on.
\<close>

theorem ok_without_results_stops_truncation_witness:
  "geocode_with_trimming (scripted [zero_results, ok_empty, ok_at 55 37]) ''k'' ''A, B, C'' 0
     = (Inr (None, None),
        [Query ''A, B, C'' (Inr (None, None, ''ZERO_RESULTS'')),
         Print (Msg_try ''A, B, C'' ''ZERO_RESULTS'')]
        @ Query ''A, B'' (Inr (None, None, ''OK''))
        # [Print (Msg_fallback ''A, B'')],
        2)
   \<and> [Print (Msg_fallback ''A, B'') :: int event]
       = (if ''A, B'' \<noteq> original_of ''A, B, C'' then [Print (Msg_fallback ''A, B'')] else [])"
proof -
  have run:
    "geocode_with_trimming (scripted [zero_results, ok_empty, ok_at 55 37]) ''k'' ''A, B, C'' 0
     = (Inr (None, None),
        [Query ''A, B, C'' (Inr (None, None, ''ZERO_RESULTS'')),
         Print (Msg_try ''A, B, C'' ''ZERO_RESULTS'')]
        @ Query ''A, B'' (Inr (None, None, ''OK''))
        # [Print (Msg_fallback ''A, B'')],
        2)"
    by code_simp
  from ok_without_results_stops_truncation [OF run refl] run show ?thesis
    by simp
qed

lemma geocode_once_located:
  "svc w key a = (Inr (Payload (Some ''OK'') (Location lat lng # more)), w') \<Longrightarrow>
   geocode_once svc key a w = (Inr (Some lat, Some lng, ''OK''), w')"
  by (simp add: geocode_once_def)

text \<open>
  Claim C6.  When the address has at least one segment and the service answers the full
  candidate (all segments joined) with status \<open>OK\<close> and a first result at \<open>(lat, lng)\<close>,
  the resolver returns \<open>(lat, lng)\<close> and its run holds that one query and no other; the
  world is left as that single request left it.
\<close>

theorem full_address_ok_returns_first_result:
  assumes "parts_of (original_of addr) \<noteq> []"
    and "svc w key (join '', '' (parts_of (original_of addr)))
           = (Inr (Payload (Some ''OK'') (Location lat lng # more)), w')"
  shows "geocode_with_trimming svc key addr w
           = (Inr (Some lat, Some lng),
              Query (join '', '' (parts_of (original_of addr))) (Inr (Some lat, Some lng, ''OK''))
                # (if join '', '' (parts_of (original_of addr)) \<noteq> original_of addr
                   then [Print (Msg_fallback (join '', '' (parts_of (original_of addr))))]
                   else []),
              w')"
proof -
  from assms(1) have orig: "original_of addr \<noteq> []"
    using parts_of_Nil by auto
  from assms(1) obtain m where m: "length (parts_of (original_of addr)) = Suc m"
    by (cases "parts_of (original_of addr)") auto
  have "take (Suc m) (parts_of (original_of addr)) = parts_of (original_of addr)"
    using m by simp
  with geocode_once_located [of svc w key _ lat lng more w', OF assms(2)] orig assms(1) m
  show ?thesis
    by (simp add: geocode_with_trimming_def Let_def)
qed

text \<open>The script holds a second reply, which is never asked for.\<close>

theorem full_address_ok_returns_first_result_witness:
  "parts_of (original_of ''A, B, C'') \<noteq> []
   \<and> scripted [ok_at 55 37, ok_at 0 0] 0 ''k'' (join '', '' (parts_of (original_of ''A, B, C'')))
       = (Inr (Payload (Some ''OK'') (Location 55 37 # [])), 1)
   \<and> geocode_with_trimming (scripted [ok_at 55 37, ok_at 0 0]) ''k'' ''A, B, C'' 0
       = (Inr (Some 55, Some 37), [Query ''A, B, C'' (Inr (Some 55, Some 37, ''OK''))], 1)"
proof -
  have p: "parts_of (original_of ''A, B, C'') \<noteq> []"
    by code_simp
  have s: "scripted [ok_at 55 37, ok_at 0 0] 0 ''k'' (join '', '' (parts_of (original_of ''A, B, C'')))
       = (Inr (Payload (Some ''OK'') (Location 55 37 # [])), 1)"
    by (simp add: scripted_def ok_at_def)
  have j: "join '', '' (parts_of (original_of ''A, B, C'')) = ''A, B, C''"
    by code_simp
  have k: "original_of ''A, B, C'' = ''A, B, C''"
    by code_simp
  have j': "join '', '' (parts_of ''A, B, C'') = ''A, B, C''"
    by code_simp
  from full_address_ok_returns_first_result
         [of "''A, B, C''" "scripted [ok_at 55 37, ok_at 0 0]" 0 "''k''" 55 37 "[]" 1, OF p s] p s
  show ?thesis
    by (simp add: j j' k)
qed

text \<open>
  Claim C3.  The run of \<^verbatim>\<open>main\<close> on the single line \<^verbatim>\<open>1,"A, B"\<close>, with a service that
  finds nothing: the two queries of the record follow each other with no \<open>Sleep\<close>
  between them; the only \<open>Sleep\<close> comes after the row is written.
\<close>

theorem no_delay_between_truncation_queries:
  "main (scripted [zero_results, zero_results]) ''k'' show_coord (Some [''1,\"A, B\"\<newline>'']) 0
     = (None,
        [Write ''id,address,lat,lng\<newline>'',
        Query ''A, B'' (Inr (None, None, ''ZERO_RESULTS'')),
        Print (Msg_try ''A, B'' ''ZERO_RESULTS''),
        Query ''A'' (Inr (None, None, ''ZERO_RESULTS'')),
        Print (Msg_try ''A'' ''ZERO_RESULTS''),
        Print (Msg_not_found ''A, B''),
        Print (Msg_resolved ''1'' ''A, B'' None None),
        Write ''1,\"A, B\",,\<newline>'',
        Flush,
        Sleep],
        2)"
  by code_simp

section \<open>The batch driver: what is written\<close>

lemma written_append: "written (a @ b) = written a @ written b"
  by (simp add: written_def)

lemma written_simps:
  "written [] = []"
  "written (Write s # evs) = s # written evs"
  "written (Query c out # evs) = written evs"
  "written (Print msg # evs) = written evs"
  "written (Flush # evs) = written evs"
  "written (Sleep # evs) = written evs"
  by (simp_all add: written_def)

lemma trim_loop_written:
  "trim_loop svc key original parts n w = (r, evs, w') \<Longrightarrow> written evs = []"
proof (induction n arbitrary: w r evs w')
  case 0
  then show ?case by (auto simp: written_simps)
next
  case (Suc m)
  then show ?case
    by (auto simp: written_simps Let_def split: prod.splits sum.splits if_splits)
qed

lemma geocode_with_trimming_written:
  "geocode_with_trimming svc key addr w = (r, evs, w') \<Longrightarrow> written evs = []"
  by (auto simp: geocode_with_trimming_def Let_def written_simps
           split: if_splits dest: trim_loop_written)

lemma format_row_empty:
  "format_row str row_id [] None None = row_id @ '','' @ [dquote, dquote] @ '',,'' @ [CHR 0x0A]"
  by (simp add: format_row_def replace_def)

text \<open>A line is skipped exactly when it is blank or a header.\<close>

lemma parse_line_None_iff:
  "parse_line line = None \<longleftrightarrow>
   strip line = [] \<or> startswith (lower (strip line)) ''id,''"
  by (auto simp: parse_line_def Let_def split_first_def split: list.splits)

text \<open>
  One pass of the loop body either ends without exception, having written nothing for a
  skipped line and one row for a record, or ends with the exception, having written
  nothing.
\<close>

lemma process_line_written:
  assumes "process_line svc key str line w = (err, evs, w')"
  shows "(case parse_line line of
            None \<Rightarrow> err = None \<and> written evs = []
          | Some (row_id, addr) \<Rightarrow>
              (err = None \<and> (\<exists>lat lng. written evs = [format_row str row_id addr lat lng]))
              \<or> (err = Some Unicode_encode_error \<and> written evs = []))"
proof (cases "parse_line line")
  case None
  with assms show ?thesis by (simp add: process_line_def written_simps)
next
  case (Some rec)
  obtain row_id addr where rec: "rec = (row_id, addr)" by (cases rec)
  show ?thesis
  proof (cases "addr = []")
    case True
    with Some rec assms have
      "(err = None \<and> written evs = [format_row str row_id addr None None])
       \<or> (err = Some Unicode_encode_error \<and> written evs = [])"
      by (auto simp: process_line_def Let_def written_simps format_row_empty split: if_splits)
    with Some rec show ?thesis by auto
  next
    case False
    obtain r gevs w1 where run: "geocode_with_trimming svc key addr w = (r, gevs, w1)"
      by (cases "geocode_with_trimming svc key addr w")
    from geocode_with_trimming_written [OF run] have g: "written gevs = []" .
    show ?thesis
    proof (cases r)
      case (Inl e)
      with Some rec False run g assms have
        "(err = None \<and> written evs = [format_row str row_id addr None None])
         \<or> (err = Some Unicode_encode_error \<and> written evs = [])"
        by (auto simp: process_line_def Let_def written_append written_simps split: if_splits)
      with Some rec show ?thesis by auto
    next
      case (Inr c)
      obtain lat lng where "c = (lat, lng)" by (cases c)
      with Inr Some rec False run g assms have
        "(err = None \<and> written evs = [format_row str row_id addr lat lng])
         \<or> (err = Some Unicode_encode_error \<and> written evs = [])"
        by (auto simp: process_line_def Let_def written_append written_simps split: if_splits)
      with Some rec show ?thesis by auto
    qed
  qed
qed

text \<open>
  The rows written by the loop are the rows of the first records, in order: of all of
  them when the loop ends without exception.
\<close>

lemma main_loop_written:
  assumes "main_loop svc key str lines w = (err, evs, w')"
  shows "\<exists>coords. length coords \<le> length (List.map_filter parse_line lines) \<and>
     (err = None \<longrightarrow> length coords = length (List.map_filter parse_line lines)) \<and>
     written evs =
       map (\<lambda>((row_id, addr), (lat, lng)). format_row str row_id addr lat lng)
         (zip (List.map_filter parse_line lines) coords)"
  using assms
proof (induction lines arbitrary: w err evs w')
  case Nil
  then show ?case by (simp add: written_simps List.map_filter_simps)
next
  case (Cons line rest)
  obtain e1 evs1 w1 where step: "process_line svc key str line w = (e1, evs1, w1)"
    by (cases "process_line svc key str line w") auto
  note row = process_line_written [OF step]
  show ?case
  proof (cases e1)
    case (Some x)
    with step Cons.prems have res: "err = Some x" "evs = evs1" by simp_all
    from row Some have "written evs1 = []"
      by (auto split: option.splits)
    with res show ?thesis
      by (intro exI [of _ "[]"]) simp
  next
    case None
    obtain e2 evs2 w2 where tail: "main_loop svc key str rest w1 = (e2, evs2, w2)"
      by (cases "main_loop svc key str rest w1") auto
    with step None Cons.prems have res: "err = e2" "evs = evs1 @ evs2" by simp_all
    from Cons.IH [OF tail] obtain coords where
      le: "length coords \<le> length (List.map_filter parse_line rest)" and
      eq: "e2 = None \<longrightarrow> length coords = length (List.map_filter parse_line rest)" and
      rows: "written evs2 =
         map (\<lambda>((row_id, addr), (lat, lng)). format_row str row_id addr lat lng)
           (zip (List.map_filter parse_line rest) coords)"
      by auto
    show ?thesis
    proof (cases "parse_line line")
      case pn: None
      with row have "written evs1 = []" by simp
      with pn res le eq rows show ?thesis
        by (intro exI [of _ coords]) (simp add: List.map_filter_simps written_append)
    next
      case (Some rec)
      obtain row_id addr where rec: "rec = (row_id, addr)" by (cases rec)
      with row Some None obtain lat lng where
        "written evs1 = [format_row str row_id addr lat lng]"
        by auto
      with Some rec res le eq rows show ?thesis
        by (intro exI [of _ "(lat, lng) # coords"])
           (simp add: List.map_filter_simps written_append)
    qed
  qed
qed

text \<open>
  When \<^verbatim>\<open>main\<close> ends without exception, it has written the header and one row for
  each record, in the order of the lines.
\<close>

lemma rows_complete_without_exception:
  assumes "main svc key str (Some lines) w = (None, evs, w')"
  shows "\<exists>coords. length coords = length (List.map_filter parse_line lines) \<and>
     written evs =
       ''id,address,lat,lng\<newline>''
       # map (\<lambda>((row_id, addr), (lat, lng)). format_row str row_id addr lat lng)
           (zip (List.map_filter parse_line lines) coords)"
proof -
  obtain err evs0 w0 where run: "main_loop svc key str lines w = (err, evs0, w0)"
    by (cases "main_loop svc key str lines w") auto
  with assms have "err = None" "evs = Write ''id,address,lat,lng\<newline>'' # evs0"
    by (simp_all add: main_def)
  with main_loop_written [OF run] show ?thesis
    by (auto simp: written_simps)
qed

text \<open>
  Claim C2.  Two lines that are records, the first with the byte 0x98 in its address.  The
  record is resolved, then writing its row raises: \<^verbatim>\<open>main\<close> ends with the exception,
  having written the header only.  Neither record has an output row, and the second
  line is never read.
\<close>

theorem unencodable_row_ends_the_output:
  "parse_line (''1,A'' @ [CHR 0x98] @ ''\<newline>'') = Some (''1'', ''A'' @ [CHR 0x98])
   \<and> parse_line ''2,B\<newline>'' = Some (''2'', ''B'')
   \<and> main (scripted [ok_at 55 37, ok_at 55 37]) ''k'' show_coord
        (Some [''1,A'' @ [CHR 0x98] @ ''\<newline>'', ''2,B\<newline>'']) 0
       = (Some Unicode_encode_error,
          [Write ''id,address,lat,lng\<newline>'',
           Query (''A'' @ [CHR 0x98]) (Inr (Some 55, Some 37, ''OK'')),
           Print (Msg_resolved ''1'' (''A'' @ [CHR 0x98]) (Some 55) (Some 37))],
          1)"
  by code_simp

lemma replace_quote_roundtrip:
  "replace [dquote, dquote] [dquote] (replace [dquote] [dquote, dquote] s) = s"
proof -
  have "replace_ne [dquote, dquote] [dquote] (replace_ne [dquote] [dquote, dquote] s) = s"
    by (induction s) (simp_all add: startswith_def)
  then show ?thesis by (simp add: replace_def)
qed

text \<open>
  Claim C4.  Every row that \<^verbatim>\<open>main\<close> writes is the row of an input record: the text
  written after the header and \<open>i\<close> rows belongs to the \<open>i\<close>-th record.  It starts with
  the record's identifier, followed by the record's parsed address between quotes with
  its inner quotes doubled, whatever candidate the resolver matched; undoing the
  doubling gives the parsed address back.
\<close>

theorem output_address_is_parsed_address:
  assumes "main svc key str (Some lines) w = (err, evs, w')"
    and "Suc i < length (written evs)"
    and "List.map_filter parse_line lines ! i = (row_id, addr)"
  shows "i < length (List.map_filter parse_line lines)
         \<and> (\<exists>lat_str lng_str.
              written evs ! Suc i
                = row_id @ '','' @ [dquote] @ replace [dquote] [dquote, dquote] addr @ [dquote]
                    @ '','' @ lat_str @ '','' @ lng_str @ ''\<newline>''
              \<and> replace [dquote, dquote] [dquote] (replace [dquote] [dquote, dquote] addr)
                  = addr)"
proof -
  obtain e0 evs0 w0 where run: "main_loop svc key str lines w = (e0, evs0, w0)"
    by (cases "main_loop svc key str lines w") auto
  with assms(1) have evs: "evs = Write ''id,address,lat,lng\<newline>'' # evs0"
    by (simp add: main_def)
  from main_loop_written [OF run] obtain coords where
    le: "length coords \<le> length (List.map_filter parse_line lines)" and
    rows: "written evs0 =
       map (\<lambda>((row_id, addr), (lat, lng)). format_row str row_id addr lat lng)
         (zip (List.map_filter parse_line lines) coords)"
    by auto
  from evs assms(2) have "i < length (written evs0)"
    by (simp add: written_simps)
  with rows le have ic: "i < length coords" and ir: "i < length (List.map_filter parse_line lines)"
    by simp_all
  obtain lat lng where c: "coords ! i = (lat, lng)" by (cases "coords ! i")
  from evs have "written evs ! Suc i = written evs0 ! i"
    by (simp add: written_simps)
  also from rows ic ir assms(3) c have "\<dots> = format_row str row_id addr lat lng"
    by simp
  finally have "written evs ! Suc i
             = row_id @ '','' @ [dquote] @ replace [dquote] [dquote, dquote] addr @ [dquote]
                 @ '','' @ (case lat of None \<Rightarrow> [] | Some x \<Rightarrow> str x) @ '',''
                 @ (case lng of None \<Rightarrow> [] | Some x \<Rightarrow> str x) @ ''\<newline>''"
    by (simp add: format_row_def)
  with replace_quote_roundtrip [of addr] ir show ?thesis by blast
qed

text \<open>
  The record \<open>2\<close> is resolved on the shortened candidate \<open>A\<close>; its row holds the
  address \<open>A, B\<close>.
\<close>

theorem output_address_is_parsed_address_witness:
  "main (scripted [zero_results, ok_at 55 37]) ''k'' show_coord
        (Some [''id,address\<newline>'', ''2,\"A, B\"\<newline>'']) 0
       = (None,
          [Write ''id,address,lat,lng\<newline>'',
           Query ''A, B'' (Inr (None, None, ''ZERO_RESULTS'')),
           Print (Msg_try ''A, B'' ''ZERO_RESULTS''),
           Query ''A'' (Inr (Some 55, Some 37, ''OK'')),
           Print (Msg_fallback ''A''),
           Print (Msg_resolved ''2'' ''A, B'' (Some 55) (Some 37)),
           Write ''2,\"A, B\",55.0,37.0\<newline>'',
           Flush,
           Sleep],
          2)
   \<and> Suc 0 < length (written
         [Write ''id,address,lat,lng\<newline>'',
          Query ''A, B'' (Inr (None, None, ''ZERO_RESULTS'')),
          Print (Msg_try ''A, B'' ''ZERO_RESULTS''),
          Query ''A'' (Inr (Some 55, Some 37, ''OK'')),
          Print (Msg_fallback ''A''),
          Print (Msg_resolved ''2'' ''A, B'' (Some 55) (Some 37)),
          Write ''2,\"A, B\",55.0,37.0\<newline>'',
          Flush,
          Sleep :: int event])
   \<and> List.map_filter parse_line [''id,address\<newline>'', ''2,\"A, B\"\<newline>''] ! 0 = (''2'', ''A, B'')
   \<and> (\<exists>lat_str lng_str.
         ''2,\"A, B\",55.0,37.0\<newline>''
           = ''2'' @ '','' @ [dquote] @ replace [dquote] [dquote, dquote] ''A, B'' @ [dquote]
               @ '','' @ lat_str @ '','' @ lng_str @ ''\<newline>'')"
proof -
  let ?evs = "[Write ''id,address,lat,lng\<newline>'',
          Query ''A, B'' (Inr (None, None, ''ZERO_RESULTS'')),
          Print (Msg_try ''A, B'' ''ZERO_RESULTS''),
          Query ''A'' (Inr (Some 55, Some 37, ''OK'')),
          Print (Msg_fallback ''A''),
          Print (Msg_resolved ''2'' ''A, B'' (Some 55) (Some 37)),
          Write ''2,\"A, B\",55.0,37.0\<newline>'',
          Flush,
          Sleep :: int event]"
  have run: "main (scripted [zero_results, ok_at 55 37]) ''k'' show_coord
        (Some [''id,address\<newline>'', ''2,\"A, B\"\<newline>'']) 0 = (None, ?evs, 2)"
    by code_simp
  have h2: "Suc 0 < length (written ?evs)"
    by (simp add: written_simps)
  have h3: "List.map_filter parse_line [''id,address\<newline>'', ''2,\"A, B\"\<newline>''] ! 0 = (''2'', ''A, B'')"
    by code_simp
  have w: "written ?evs ! Suc 0 = ''2,\"A, B\",55.0,37.0\<newline>''"
    by (simp add: written_simps)
  from output_address_is_parsed_address [OF run h2 h3] run h2 h3 show ?thesis
    unfolding w by blast
qed

section \<open>The batch driver: one record and the rest\<close>

text \<open>
  For a line whose parsed address is empty and whose identifier can be encoded, the
  driver prints a message, writes the row \<^verbatim>\<open>row_id,"",,\<close> and flushes; it makes no
  query and leaves the world as it was; then it processes the remaining lines.
\<close>

lemma empty_address_row_when_encodable:
  assumes "parse_line line = Some (row_id, [])" and "cp1251_encodable row_id"
  shows "main_loop svc key str (line # rest) w
           = (fst (main_loop svc key str rest w),
              [Print (Msg_empty_address row_id), Write (row_id @ '',\"\",,\<newline>''), Flush]
                @ fst (snd (main_loop svc key str rest w)),
              snd (snd (main_loop svc key str rest w)))"
  using assms
  by (simp add: process_line_def cp1251_encodable_def dquote_def split: prod.splits)

text \<open>
  Claim C8.  A record with an empty address and the byte 0x98 in its identifier, followed
  by a second record.  Writing the row raises: no row is written for the record, and
  the second record is not processed.
\<close>

theorem unencodable_row_id_ends_the_batch:
  "parse_line (''7'' @ [CHR 0x98] @ '',\"\"\<newline>'') = Some (''7'' @ [CHR 0x98], [])
   \<and> parse_line ''8,\"B\"\<newline>'' = Some (''8'', ''B'')
   \<and> main (scripted [ok_at 55 37]) ''k'' show_coord
        (Some [''7'' @ [CHR 0x98] @ '',\"\"\<newline>'', ''8,\"B\"\<newline>'']) 0
       = (Some Unicode_encode_error,
          [Write ''id,address,lat,lng\<newline>'',
           Print (Msg_empty_address (''7'' @ [CHR 0x98]))],
          0)"
  by code_simp

text \<open>
  When the resolver raises \<open>e\<close> on a record whose row can be encoded, the driver prints
  the error, writes the row with both coordinate fields empty, flushes and sleeps, and
  then processes the remaining lines.
\<close>

lemma resolver_exception_row_when_encodable:
  assumes "parse_line line = Some (row_id, addr)" and "addr \<noteq> []"
    and "geocode_with_trimming svc key addr w = (Inl e, evs, w')"
    and "cp1251_encodable (format_row str row_id addr None None)"
  shows "main_loop svc key str (line # rest) w
           = (fst (main_loop svc key str rest w'),
              evs @ [Print (Msg_error row_id addr e),
                     Write (row_id @ '',\"'' @ replace [dquote] [dquote, dquote] addr @ ''\",,\<newline>''),
                     Flush, Sleep]
                @ fst (snd (main_loop svc key str rest w')),
              snd (snd (main_loop svc key str rest w')))"
  using assms
  by (simp add: process_line_def format_row_def dquote_def Let_def split: prod.splits)

text \<open>
  Claim C9.  The request for the record \<open>5\<close>, whose address holds the byte 0x98, fails in
  transport.  The exception of the resolver is caught and printed; then writing the row
  raises outside the \<^verbatim>\<open>try\<close>: no row is written for the record, and the record \<open>6\<close>
  is not processed.
\<close>

theorem write_after_caught_exception_ends_the_batch:
  "parse_line (''5,\"A'' @ [CHR 0x98] @ ''\"\<newline>'') = Some (''5'', ''A'' @ [CHR 0x98])
   \<and> geocode_with_trimming (scripted [Inl Transport_fault, ok_at 55 37]) ''k''
        (''A'' @ [CHR 0x98]) 0
       = (Inl Transport_fault, [Query (''A'' @ [CHR 0x98]) (Inl Transport_fault)], 1)
   \<and> main (scripted [Inl Transport_fault, ok_at 55 37]) ''k'' show_coord
        (Some [''5,\"A'' @ [CHR 0x98] @ ''\"\<newline>'', ''6,\"B\"\<newline>'']) 0
       = (Some Unicode_encode_error,
          [Write ''id,address,lat,lng\<newline>'',
           Query (''A'' @ [CHR 0x98]) (Inl Transport_fault),
           Print (Msg_error ''5'' (''A'' @ [CHR 0x98]) Transport_fault)],
          1)"
  by code_simp

end
